theory Spec2Isabelle
  imports Complex_Main "HOL-Library.Stream"
begin

unbundle bit_operations_syntax

section \<open>Vectors, rectangles and number conversion\<close>

text \<open>
  \<open>pygame.Vector2\<close>: a pair of floats, modelled over the reals. Addition, subtraction
  and scaling are componentwise; \<open>normalize\<close> raises \<open>ValueError\<close> on the zero vector.
\<close>

datatype Vector2 = Vector2 (vx: real) (vy: real)

definition vadd :: "Vector2 \<Rightarrow> Vector2 \<Rightarrow> Vector2" where
  "vadd a b = Vector2 (vx a + vx b) (vy a + vy b)"

definition vsub :: "Vector2 \<Rightarrow> Vector2 \<Rightarrow> Vector2" where
  "vsub a b = Vector2 (vx a - vx b) (vy a - vy b)"

definition vscale :: "Vector2 \<Rightarrow> real \<Rightarrow> Vector2" where
  "vscale a k = Vector2 (vx a * k) (vy a * k)"

definition vdot :: "Vector2 \<Rightarrow> Vector2 \<Rightarrow> real" where
  "vdot a b = vx a * vx b + vy a * vy b"

definition vlength :: "Vector2 \<Rightarrow> real" where
  "vlength a = sqrt (vx a * vx a + vy a * vy a)"

datatype error = ValueError

definition normalize :: "Vector2 \<Rightarrow> error + Vector2" where
  "normalize a =
     (if vlength a = 0 then Inl ValueError
      else Inr (Vector2 (vx a / vlength a) (vy a / vlength a)))"

text \<open>Python's \<open>int(x)\<close> on a float truncates toward zero.\<close>

definition py_int :: "real \<Rightarrow> int" where
  "py_int x = (if 0 \<le> x then \<lfloor>x\<rfloor> else \<lceil>x\<rceil>)"

text \<open>
  \<open>pygame.Rect\<close>: integer left, top, width and height; \<open>right\<close>, \<open>bottom\<close> and
  \<open>center\<close> are derived. pygame is not part of this repository; \<open>center\<close> halves the
  size in integer arithmetic, rounding toward zero.
\<close>

record Rect =
  left :: int
  top :: int
  width :: int
  height :: int

definition right :: "Rect \<Rightarrow> int" where
  "right r = left r + width r"

definition bottom :: "Rect \<Rightarrow> int" where
  "bottom r = top r + height r"

definition half :: "int \<Rightarrow> int" where
  "half n = (if 0 \<le> n then n div 2 else - ((- n) div 2))"

definition center :: "Rect \<Rightarrow> Vector2" where
  "center r = Vector2 (of_int (left r + half (width r))) (of_int (top r + half (height r)))"

text \<open>The two interpolation helpers at the head of \<open>compsys.py\<close> and \<open>zones.py\<close>.\<close>

definition lerp :: "real \<Rightarrow> real \<Rightarrow> real \<Rightarrow> real" where
  "lerp a b t = (1 - t) * a + b * t"

section \<open>The timer and the interpolated-value driver\<close>

text \<open>
  Modelled from the spec: the countdown timer (\<open>pgcooldown.Cooldown\<close>) is an external
  collaborator, described in the spec's section 6 as
  \<open>new(duration, start_cold)\<close>, \<open>.hot\<close>, \<open>.cold\<close>, \<open>.reset(new_duration)\<close>,
  \<open>.normalized\<close> in [0,1] and \<open>.duration\<close>. The wall clock it reads is made explicit:
  \<open>remaining_time\<close> is the time left, \<open>elapse\<close> lets time pass. A timer is hot while
  time is left and cold from the moment none is.
\<close>

record Cooldown =
  duration :: real
  remaining_time :: real

definition Cooldown_new :: "real \<Rightarrow> bool \<Rightarrow> Cooldown" where
  "Cooldown_new d start_cold = \<lparr>duration = d, remaining_time = (if start_cold then 0 else d)\<rparr>"

definition hot :: "Cooldown \<Rightarrow> bool" where
  "hot c = (0 < remaining_time c)"

definition cold :: "Cooldown \<Rightarrow> bool" where
  "cold c = (\<not> hot c)"

definition reset :: "Cooldown \<Rightarrow> real \<Rightarrow> Cooldown" where
  "reset c d = c\<lparr>duration := d, remaining_time := d\<rparr>"

definition normalized :: "Cooldown \<Rightarrow> real" where
  "normalized c = max 0 (min 1 (1 - remaining_time c / duration c))"

definition elapse :: "real \<Rightarrow> Cooldown \<Rightarrow> Cooldown" where
  "elapse dt c = c\<lparr>remaining_time := remaining_time c - dt\<rparr>"

text \<open>
  Modelled from the spec: the interpolated-value driver (\<open>pgcooldown.LerpThing\<close>) is an
  external collaborator. Per the spec's sections 3 and 6 it is built from a start value, an
  end value, a duration and an easing function; calling it gives the eased interpolation
  at its timer's normalized progress, and a zero duration means "always the start value".
  \<open>.v\<close> is the current value.
\<close>

record LerpThing =
  vt0 :: real
  vt1 :: real
  lt_duration :: Cooldown
  ease :: "real \<Rightarrow> real"

definition LerpThing_call :: "LerpThing \<Rightarrow> real" where
  "LerpThing_call lt =
     (if duration (lt_duration lt) = 0 then vt0 lt
      else lerp (vt0 lt) (vt1 lt) (ease lt (normalized (lt_duration lt))))"

definition LerpThing_v :: "LerpThing \<Rightarrow> real" where
  "LerpThing_v lt = LerpThing_call lt"

definition LerpThing_elapse :: "real \<Rightarrow> LerpThing \<Rightarrow> LerpThing" where
  "LerpThing_elapse dt lt = lt\<lparr>lt_duration := elapse dt (lt_duration lt)\<rparr>"

section \<open>The emitter\<close>

text \<open>
  The entity registry (\<open>tinyecs\<close>) is consulted for two optional components of the
  emitter's entity: \<open>ecs.eid_has(eid, 'lifetime')\<close> and \<open>ecs.eid_has(eid, 'momentum')\<close>.
  The entity is passed in as a record of these optional components.
\<close>

record Entity =
  lifetime :: "Cooldown option"
  momentum :: "Vector2 option"

text \<open>
  The calls an update makes to its two callables, in order: \<open>emitter.zone.emit(t)\<close> and
  \<open>emitter.particle_factory(t=t, position=..., momentum=...)\<close>.
\<close>

datatype call = ZoneEmit real | ParticleFactory real Vector2 Vector2

fun is_factory :: "call \<Rightarrow> bool" where
  "is_factory (ParticleFactory t p m) = True"
| "is_factory (ZoneEmit t) = False"

definition factory_count :: "call list \<Rightarrow> nat" where
  "factory_count cs = length (filter is_factory cs)"

fun call_t :: "call \<Rightarrow> real" where
  "call_t (ZoneEmit t) = t"
| "call_t (ParticleFactory t p m) = t"

text \<open>
  class \<open>Emitter\<close>. \<open>ticker\<close> is the \<open>itertools.cycle\<close> iterator, an infinite stream;
  \<open>next(emitter.ticker)\<close> reads its head and leaves its tail. The zone is a callable with
  hidden state (its random generators): \<open>zone e k t\<close> is what its \<open>k\<close>-th call returns
  when given \<open>t\<close>, and \<open>zone_calls\<close> counts the calls made so far.
\<close>

record Emitter =
  ept :: LerpThing
  tick :: Cooldown
  ticker :: "real stream"
  remaining :: int
  zone :: "nat \<Rightarrow> real \<Rightarrow> Vector2 \<times> Vector2"
  zone_calls :: nat
  inherit_momentum :: int

text \<open>
  \<open>Emitter.__post_init__\<close>, with the dataclass fields passed explicitly:
  \<^verbatim>\<open>
    self.tick = Cooldown(tick, cold=True)
    self.ticker = cycle(ticklist) if ticklist else cycle([tick])
    self.remaining = total_emits if total_emits is not None else -1
  \<close>
\<close>

definition Emitter_post_init ::
  "LerpThing \<Rightarrow> real \<Rightarrow> real list \<Rightarrow> int option \<Rightarrow> (nat \<Rightarrow> real \<Rightarrow> Vector2 \<times> Vector2) \<Rightarrow> int
     \<Rightarrow> Emitter" where
  "Emitter_post_init ept_arg tick_arg ticklist total_emits zone_arg inherit =
     \<lparr>ept = ept_arg,
      tick = Cooldown_new tick_arg True,
      ticker = (if ticklist \<noteq> [] then cycle ticklist else cycle [tick_arg]),
      remaining = (case total_emits of Some n \<Rightarrow> n | None \<Rightarrow> - 1),
      zone = zone_arg,
      zone_calls = 0,
      inherit_momentum = inherit\<rparr>"

text \<open>
  The body of the \<open>for i in range(emits)\<close> loop of \<open>emitter_system\<close>, run \<open>n\<close> times:
  \<^verbatim>\<open>
    z_position, z_momentum = emitter.zone.emit(t)
    momentum = Vector2()
    if emitter.inherit_momentum & 1: momentum += e_momentum
    if emitter.inherit_momentum & 2: momentum += z_momentum
    emitter.particle_factory(t=t, position=position + z_position, momentum=momentum)
  \<close>
\<close>

definition compose_momentum :: "int \<Rightarrow> Vector2 \<Rightarrow> Vector2 \<Rightarrow> Vector2" where
  "compose_momentum inherit e_momentum z_momentum =
     (let m0 = Vector2 0 0;
          m1 = (if inherit AND 1 \<noteq> 0 then vadd m0 e_momentum else m0);
          m2 = (if inherit AND 2 \<noteq> 0 then vadd m1 z_momentum else m1)
      in m2)"

fun spawn :: "nat \<Rightarrow> Emitter \<Rightarrow> real \<Rightarrow> Vector2 \<Rightarrow> Vector2 \<Rightarrow> Emitter \<times> call list" where
  "spawn 0 emitter t position e_momentum = (emitter, [])"
| "spawn (Suc n) emitter t position e_momentum =
     (let (z_position, z_momentum) = zone emitter (zone_calls emitter) t;
          emitter1 = emitter\<lparr>zone_calls := Suc (zone_calls emitter)\<rparr>;
          m = compose_momentum (inherit_momentum emitter) e_momentum z_momentum;
          (emitter2, cs) = spawn n emitter1 t position e_momentum
      in (emitter2, ZoneEmit t # ParticleFactory t (vadd position z_position) m # cs))"

text \<open>
  The entity's own momentum as \<open>emitter_system\<close> resolves it:
  \<^verbatim>\<open>
    if emitter.inherit_momentum & 1 and ecs.eid_has(eid, 'momentum'):
        e_momentum = ecs.comp_of_eid(eid, 'momentum')
    else:
        e_momentum = Vector2(0, 0)
  \<close>
\<close>

definition entity_momentum :: "int \<Rightarrow> Entity \<Rightarrow> Vector2" where
  "entity_momentum inh ent =
     (if inh AND 1 \<noteq> 0 then (case momentum ent of Some m \<Rightarrow> m | None \<Rightarrow> Vector2 0 0)
      else Vector2 0 0)"

text \<open>
  The choice of \<open>t\<close> in \<open>emitter_system\<close>; \<open>None\<close> is the early return when the emission
  window has a duration and is over.
\<close>

definition emitter_t :: "Entity \<Rightarrow> LerpThing \<Rightarrow> real option" where
  "emitter_t ent e =
     (if duration (lt_duration e) \<noteq> 0 then
        (if cold (lt_duration e) then None else Some (normalized (lt_duration e)))
      else
        (case lifetime ent of
           Some l \<Rightarrow> Some (normalized l)
         | None \<Rightarrow> Some 0))"

text \<open>
  \<open>emitter_system(dt, eid, emitter, position)\<close>. The result is the emitter as the update
  leaves it and the calls the update made.
\<close>

definition emitter_system :: "real \<Rightarrow> Entity \<Rightarrow> Emitter \<Rightarrow> Vector2 \<Rightarrow> Emitter \<times> call list" where
  "emitter_system dt ent emitter0 position =
     (if hot (tick emitter0) then (emitter0, [])
      else
        let emitter = emitter0\<lparr>tick := reset (tick emitter0) (shd (ticker emitter0)),
                               ticker := stl (ticker emitter0)\<rparr>
        in
          if remaining emitter = 0 then (emitter, [])
          else
            (case emitter_t ent (ept emitter) of
               None \<Rightarrow> (emitter, [])
             | Some t \<Rightarrow>
                 let emits0 = py_int (LerpThing_call (ept emitter));
                     emits = (if remaining emitter > 0 then min emits0 (remaining emitter)
                              else emits0);
                     emitter' = (if remaining emitter > 0
                                 then emitter\<lparr>remaining := remaining emitter - emits\<rparr>
                                 else emitter);
                     e_momentum = entity_momentum (inherit_momentum emitter) ent
                 in spawn (nat emits) emitter' t position e_momentum))"

text \<open>
  A frame: time \<open>dt\<close> passes on the emitter's timers, then the registry dispatches
  \<open>emitter_system\<close> with the entity's components and position as they are in that frame.
\<close>

type_synonym frame = "real \<times> Entity \<times> Vector2"

definition Emitter_elapse :: "real \<Rightarrow> Emitter \<Rightarrow> Emitter" where
  "Emitter_elapse dt e = e\<lparr>tick := elapse dt (tick e), ept := LerpThing_elapse dt (ept e)\<rparr>"

definition emitter_frame :: "frame \<Rightarrow> Emitter \<Rightarrow> Emitter \<times> call list" where
  "emitter_frame f e =
     (case f of (dt, ent, position) \<Rightarrow> emitter_system dt ent (Emitter_elapse dt e) position)"

text \<open>The emitter after each frame of a sequence, with the calls of that frame.\<close>

fun emitter_run :: "frame list \<Rightarrow> Emitter \<Rightarrow> (Emitter \<times> call list) list" where
  "emitter_run [] e = []"
| "emitter_run (f # fs) e =
     (let r = emitter_frame f e in r # emitter_run fs (fst r))"

text \<open>The emitter after a whole sequence of frames.\<close>

fun emitter_after :: "frame list \<Rightarrow> Emitter \<Rightarrow> Emitter" where
  "emitter_after [] e = e"
| "emitter_after (f # fs) e = emitter_after fs (fst (emitter_frame f e))"

text \<open>
  An emission-rate driver that yields no negative value, whatever the state of its timer:
  the case that the spec's section 4.2 leaves to the caller ("emission rates are assumed
  non-negative by construction").
\<close>

definition rate_nonneg :: "LerpThing \<Rightarrow> bool" where
  "rate_nonneg lt = (\<forall>c. 0 \<le> LerpThing_call (lt\<lparr>lt_duration := c\<rparr>))"

text \<open>
  The emission window is over: the rate driver has a duration and its timer is cold, the
  test \<open>ept.duration.duration\<close> and \<open>ept.duration.cold\<close> of \<open>emitter_system\<close>.
\<close>

definition emission_over :: "LerpThing \<Rightarrow> bool" where
  "emission_over lt = (duration (lt_duration lt) \<noteq> 0 \<and> cold (lt_duration lt))"

section \<open>Scenario emitters\<close>

text \<open>
  A driver with a constant rate \<open>k\<close> and zero duration, an entity with neither a
  lifetime nor a momentum component, and the emitter of the spec's end-to-end scenario:
  \<open>tick_sequence = [0.1]\<close>, a constant rate with zero duration, a budget of emits.
\<close>

definition const_rate :: "real \<Rightarrow> LerpThing" where
  "const_rate k = \<lparr>vt0 = k, vt1 = k, lt_duration = Cooldown_new 0 False, ease = (\<lambda>x. x)\<rparr>"

definition bare_entity :: Entity where
  "bare_entity = \<lparr>lifetime = None, momentum = None\<rparr>"

definition scenario_emitter ::
  "real \<Rightarrow> int \<Rightarrow> (nat \<Rightarrow> real \<Rightarrow> Vector2 \<times> Vector2) \<Rightarrow> Emitter" where
  "scenario_emitter k budget z = Emitter_post_init (const_rate k) (1 / 10) [1 / 10] (Some budget) z 3"

text \<open>
  The clock exactly aligned to a heartbeat of 0.1s: the rate driver has zero duration and
  start value \<open>k\<close>, the tick timer has at most 0.1s left, and the ticker repeats 0.1.
\<close>

definition aligned :: "real \<Rightarrow> Emitter \<Rightarrow> bool" where
  "aligned k e =
     (duration (lt_duration (ept e)) = 0 \<and> vt0 (ept e) = k
      \<and> remaining_time (tick e) \<le> 1 / 10 \<and> ticker e = cycle [1 / 10])"

text \<open>A zone that always returns the origin and no momentum.\<close>

definition zone_origin :: "nat \<Rightarrow> real \<Rightarrow> Vector2 \<times> Vector2" where
  "zone_origin k t = (Vector2 0 0, Vector2 0 0)"

text \<open>
  An emitter whose rate driver has a duration of 1s that has just run out; a zone that
  always returns the momentum (0, 3), an entity with momentum (5, 0), and an unlimited
  emitter on that zone that inherits both momenta.
\<close>

definition expired_rate :: LerpThing where
  "expired_rate =
     LerpThing_elapse 1 \<lparr>vt0 = 2, vt1 = 2, lt_duration = Cooldown_new 1 False, ease = (\<lambda>x. x)\<rparr>"

definition expired_emitter :: Emitter where
  "expired_emitter = Emitter_post_init expired_rate (1 / 10) [1 / 10] (Some 5) zone_origin 3"

definition momentum_zone :: "nat \<Rightarrow> real \<Rightarrow> Vector2 \<times> Vector2" where
  "momentum_zone k t = (Vector2 0 0, Vector2 0 3)"

definition moving_entity :: Entity where
  "moving_entity = \<lparr>lifetime = None, momentum = Some (Vector2 5 0)\<rparr>"

definition momentum_emitter :: Emitter where
  "momentum_emitter = Emitter_post_init (const_rate 2) (1 / 10) [1 / 10] None momentum_zone 3"

section \<open>Zones\<close>

text \<open>
  \<open>ZoneBeam\<close>. \<open>__post_init__\<close> stores the line vector and the displacement vector
  \<^verbatim>\<open>self.w = Vector2(self.v.y, self.v.x).normalize() * width\<close>; \<open>emit\<close> is
  \<^verbatim>\<open>
    v = self.v * self.rnd_p()
    w = self.w * (self.rnd_m() - 0.5)
    return v + w, w
  \<close>
  The values that the calls \<open>self.rnd_p()\<close> and \<open>self.rnd_m()\<close> return are arguments.
\<close>

record ZoneBeam =
  beam_v :: Vector2
  beam_w :: Vector2

definition ZoneBeam_post_init :: "Vector2 \<Rightarrow> real \<Rightarrow> error + ZoneBeam" where
  "ZoneBeam_post_init v width_arg =
     (case normalize (Vector2 (vy v) (vx v)) of
        Inl e \<Rightarrow> Inl e
      | Inr n \<Rightarrow> Inr \<lparr>beam_v = v, beam_w = vscale n width_arg\<rparr>)"

definition ZoneBeam_emit :: "ZoneBeam \<Rightarrow> real \<Rightarrow> real \<Rightarrow> Vector2 \<times> Vector2" where
  "ZoneBeam_emit z rnd_p rnd_m =
     (let v = vscale (beam_v z) rnd_p;
          w = vscale (beam_w z) (rnd_m - 1 / 2)
      in (vadd v w, w))"

text \<open>
  \<open>ZoneRect.emit\<close> on the rectangle \<open>self.r\<close>; \<open>self.rnd_p()\<close> is called twice, and
  the two values it returns are arguments:
  \<^verbatim>\<open>
    pos = Vector2(int(self.r.width * (self.rnd_p() - 0.5)),
                  int(self.r.height * (self.rnd_p() - 0.5)))
    momentum = pos - Vector2(self.r.center)
    return pos, momentum
  \<close>
\<close>

definition ZoneRect_emit :: "Rect \<Rightarrow> real \<Rightarrow> real \<Rightarrow> Vector2 \<times> Vector2" where
  "ZoneRect_emit rect rnd_p1 rnd_p2 =
     (let pos = Vector2 (of_int (py_int (of_int (width rect) * (rnd_p1 - 1 / 2))))
                        (of_int (py_int (of_int (height rect) * (rnd_p2 - 1 / 2))));
          m = vsub pos (center rect)
      in (pos, m))"

section \<open>The particle glue\<close>

record Particle =
  rotate :: "LerpThing option"
  scale :: "LerpThing option"
  alpha :: "LerpThing option"

text \<open>
  The renderable descriptor (\<open>tinyecs.compsys.RSAImage\<close>), as far as the glue writes it.
\<close>

record RSAImage =
  rsai_rotate :: real
  rsai_scale :: real
  rsai_alpha :: real
  lock :: bool

text \<open>
  \<open>particle_rsai_system\<close> is a sequence of attribute assignments on \<open>rsai\<close>. The
  assignments are listed in their order, so that what a reader of the descriptor can see
  between two of them can be stated; the system applies them one after the other.
  \<^verbatim>\<open>
    rsai.lock = True
    if particle.rotate is not None: rsai.rotate = particle.rotate.v
    if particle.scale is not None: rsai.scale = particle.scale.v
    if particle.alpha is not None: rsai.alpha = particle.alpha.v
    rsai.lock = False
  \<close>
\<close>

datatype rsai_write = SetLock bool | SetRotate real | SetScale real | SetAlpha real

fun apply_write :: "RSAImage \<Rightarrow> rsai_write \<Rightarrow> RSAImage" where
  "apply_write rsai (SetLock b) = rsai\<lparr>lock := b\<rparr>"
| "apply_write rsai (SetRotate x) = rsai\<lparr>rsai_rotate := x\<rparr>"
| "apply_write rsai (SetScale x) = rsai\<lparr>rsai_scale := x\<rparr>"
| "apply_write rsai (SetAlpha x) = rsai\<lparr>rsai_alpha := x\<rparr>"

definition particle_rsai_writes :: "Particle \<Rightarrow> rsai_write list" where
  "particle_rsai_writes particle =
     [SetLock True]
     @ (case rotate particle of Some l \<Rightarrow> [SetRotate (LerpThing_v l)] | None \<Rightarrow> [])
     @ (case scale particle of Some l \<Rightarrow> [SetScale (LerpThing_v l)] | None \<Rightarrow> [])
     @ (case alpha particle of Some l \<Rightarrow> [SetAlpha (LerpThing_v l)] | None \<Rightarrow> [])
     @ [SetLock False]"

definition particle_rsai_system :: "real \<Rightarrow> Particle \<Rightarrow> RSAImage \<Rightarrow> RSAImage" where
  "particle_rsai_system dt particle rsai = foldl apply_write rsai (particle_rsai_writes particle)"

text \<open>
  A frame of a particle: time \<open>dt\<close> passes on the timers of its drivers, then the glue
  runs. \<open>particle_after\<close> is the particle and its descriptor after a sequence of frames.
\<close>

definition Particle_elapse :: "real \<Rightarrow> Particle \<Rightarrow> Particle" where
  "Particle_elapse dt p =
     p\<lparr>rotate := map_option (LerpThing_elapse dt) (rotate p),
       scale := map_option (LerpThing_elapse dt) (scale p),
       alpha := map_option (LerpThing_elapse dt) (alpha p)\<rparr>"

fun particle_after :: "real list \<Rightarrow> Particle \<Rightarrow> RSAImage \<Rightarrow> Particle \<times> RSAImage" where
  "particle_after [] p rsai = (p, rsai)"
| "particle_after (dt # dts) p rsai =
     particle_after dts (Particle_elapse dt p)
       (particle_rsai_system dt (Particle_elapse dt p) rsai)"

text \<open>The driver of a channel after the frames \<open>dts\<close> have passed.\<close>

definition elapse_all :: "real list \<Rightarrow> LerpThing \<Rightarrow> LerpThing" where
  "elapse_all dts l = foldl (\<lambda>l dt. LerpThing_elapse dt l) l dts"

section \<open>The container system\<close>

text \<open>
  \<open>container_system(dt, eid, container, position, momentum, sprite)\<close>; \<open>sprite_rect\<close> is
  \<open>sprite.rect\<close>. The two \<open>if\<close>/\<open>elif\<close> statements run one after the other on the
  mutated vectors; the result is the position and the momentum as the update leaves them.
\<close>

definition container_system ::
  "real \<Rightarrow> Rect \<Rightarrow> Vector2 \<Rightarrow> Vector2 \<Rightarrow> Rect \<Rightarrow> Vector2 \<times> Vector2" where
  "container_system dt container position0 momentum0 sprite_rect =
     (let (position1, momentum1) =
            (if left sprite_rect < left container \<and> vx momentum0 < 0 then
               (Vector2 (vx position0 + of_int (- 2 * left sprite_rect)) (vy position0),
                Vector2 (- vx momentum0) (vy momentum0))
             else if right sprite_rect > right container \<and> vx momentum0 > 0 then
               (Vector2 (vx position0 + of_int (2 * (width container - right sprite_rect)))
                        (vy position0),
                Vector2 (- vx momentum0) (vy momentum0))
             else (position0, momentum0))
      in
        if top sprite_rect < top container \<and> vx momentum1 < 0 then
          (Vector2 (vx position1) (vy position1 + of_int (- 2 * top sprite_rect)),
           Vector2 (vx momentum1) (- vy momentum1))
        else if bottom sprite_rect > bottom container \<and> vy momentum1 > 0 then
          (Vector2 (vx position1)
                   (vy position1 + of_int (2 * (height container - bottom sprite_rect))),
           Vector2 (vx momentum1) (- vy momentum1))
        else (position1, momentum1))"

section \<open>Scenario values for the glue, the zones and the container\<close>

text \<open>
  A particle whose only driver is \<open>alpha\<close>, fading from 255 to 0 over one second; a
  descriptor with a rotation and a scale of its own; the screen as a container at the
  origin and a sprite whose top edge is above it; a small rectangle.
\<close>

definition fade_out :: LerpThing where
  "fade_out = \<lparr>vt0 = 255, vt1 = 0, lt_duration = Cooldown_new 1 False, ease = (\<lambda>x. x)\<rparr>"

definition fading_particle :: Particle where
  "fading_particle = \<lparr>rotate = None, scale = None, alpha = Some fade_out\<rparr>"

definition turned_rsai :: RSAImage where
  "turned_rsai = \<lparr>rsai_rotate = 30, rsai_scale = 2, rsai_alpha = 255, lock = False\<rparr>"

definition screen :: Rect where
  "screen = \<lparr>left = 0, top = 0, width = 100, height = 100\<rparr>"

definition sprite_above :: Rect where
  "sprite_above = \<lparr>left = 10, top = - 5, width = 10, height = 10\<rparr>"

definition small_rect :: Rect where
  "small_rect = \<lparr>left = 0, top = 0, width = 5, height = 3\<rparr>"

section \<open>Properties of the emitter update\<close>

subsection \<open>The spawn loop and one update\<close>

lemma spawn_fields:
  "remaining (fst (spawn n e t p m)) = remaining e \<and>
   tick (fst (spawn n e t p m)) = tick e \<and>
   ticker (fst (spawn n e t p m)) = ticker e \<and>
   ept (fst (spawn n e t p m)) = ept e \<and>
   zone (fst (spawn n e t p m)) = zone e \<and>
   inherit_momentum (fst (spawn n e t p m)) = inherit_momentum e \<and>
   zone_calls (fst (spawn n e t p m)) = zone_calls e + n"
  by (induction n arbitrary: e) (simp_all add: Let_def split_beta)

lemma spawn_factory_count: "factory_count (snd (spawn n e t p m)) = n"
  by (induction n arbitrary: e) (simp_all add: Let_def split_beta factory_count_def)

lemma spawn_call_t: "c \<in> set (snd (spawn n e t p m)) \<Longrightarrow> call_t c = t"
  by (induction n arbitrary: e) (auto simp add: Let_def split_beta)

lemma emitter_system_exhausted:
  "remaining e = 0 \<Longrightarrow>
     remaining (fst (emitter_system dt ent e pos)) = 0 \<and> snd (emitter_system dt ent e pos) = []"
  by (simp add: emitter_system_def Let_def)

lemma emitter_system_negative:
  "remaining e < 0 \<Longrightarrow> remaining (fst (emitter_system dt ent e pos)) = remaining e"
  by (simp add: emitter_system_def Let_def spawn_fields split: option.splits)

lemma py_int_nonneg: "0 \<le> x \<Longrightarrow> 0 \<le> py_int x"
  by (simp add: py_int_def)

lemma emitter_system_decreases:
  "0 \<le> LerpThing_call (ept e) \<Longrightarrow> remaining (fst (emitter_system dt ent e pos)) \<le> remaining e"
  using py_int_nonneg[of "LerpThing_call (ept e)"]
  by (simp add: emitter_system_def Let_def spawn_fields split: option.splits)

lemma emitter_system_nonneg:
  "0 \<le> remaining e \<Longrightarrow> 0 \<le> remaining (fst (emitter_system dt ent e pos))"
  by (simp add: emitter_system_def Let_def spawn_fields split: option.splits)


lemma emitter_after_append: "emitter_after (fs @ gs) e = emitter_after gs (emitter_after fs e)"
  by (induction fs arbitrary: e) simp_all

lemma emitter_run_append:
  "emitter_run (fs @ gs) e = emitter_run fs e @ emitter_run gs (emitter_after fs e)"
  by (induction fs arbitrary: e) (simp_all add: Let_def)

lemma emitter_system_ept: "ept (fst (emitter_system dt ent e pos)) = ept e"
  by (simp add: emitter_system_def Let_def spawn_fields split: option.splits)

lemma emitter_frame_ept: "ept (fst (emitter_frame f e)) = LerpThing_elapse (fst f) (ept e)"
  by (cases f) (simp add: emitter_frame_def emitter_system_ept Emitter_elapse_def)

lemma rate_nonneg_elapse: "rate_nonneg (LerpThing_elapse dt lt) = rate_nonneg lt"
  by (simp add: rate_nonneg_def LerpThing_elapse_def)

lemma rate_nonneg_call: "rate_nonneg lt \<Longrightarrow> 0 \<le> LerpThing_call lt"
proof -
  assume h: "rate_nonneg lt"
  have "lt\<lparr>lt_duration := lt_duration lt\<rparr> = lt" by simp
  with h show ?thesis unfolding rate_nonneg_def by metis
qed

lemma emitter_frame_rate_nonneg:
  "rate_nonneg (ept (fst (emitter_frame f e))) = rate_nonneg (ept e)"
  by (simp add: emitter_frame_ept rate_nonneg_elapse)

lemma emitter_frame_decreases:
  "rate_nonneg (ept e) \<Longrightarrow> remaining (fst (emitter_frame f e)) \<le> remaining e"
proof -
  assume h: "rate_nonneg (ept e)"
  obtain dt ent pos where f: "f = (dt, ent, pos)" by (cases f) auto
  have "rate_nonneg (ept (Emitter_elapse dt e))"
    using h by (simp add: Emitter_elapse_def rate_nonneg_elapse)
  then have "0 \<le> LerpThing_call (ept (Emitter_elapse dt e))" by (rule rate_nonneg_call)
  then have "remaining (fst (emitter_system dt ent (Emitter_elapse dt e) pos))
               \<le> remaining (Emitter_elapse dt e)"
    by (rule emitter_system_decreases)
  then show ?thesis by (simp add: f emitter_frame_def Emitter_elapse_def)
qed

lemma emitter_frame_exhausted:
  "remaining e = 0 \<Longrightarrow> remaining (fst (emitter_frame f e)) = 0 \<and> snd (emitter_frame f e) = []"
  by (cases f) (simp add: emitter_frame_def emitter_system_exhausted Emitter_elapse_def)

lemma emitter_frame_negative:
  "remaining e < 0 \<Longrightarrow> remaining (fst (emitter_frame f e)) = remaining e"
  by (cases f) (simp add: emitter_frame_def emitter_system_negative Emitter_elapse_def)

lemma emitter_after_decreases:
  "rate_nonneg (ept e) \<Longrightarrow> remaining (emitter_after gs e) \<le> remaining e"
proof (induction gs arbitrary: e)
  case Nil
  then show ?case by simp
next
  case (Cons g gs)
  have "rate_nonneg (ept (fst (emitter_frame g e)))"
    using Cons.prems by (simp add: emitter_frame_rate_nonneg)
  then have "remaining (emitter_after gs (fst (emitter_frame g e)))
               \<le> remaining (fst (emitter_frame g e))"
    by (rule Cons.IH)
  also have "\<dots> \<le> remaining e" using Cons.prems by (rule emitter_frame_decreases)
  finally show ?case by simp
qed

lemma emitter_after_rate_nonneg: "rate_nonneg (ept (emitter_after fs e)) = rate_nonneg (ept e)"
  by (induction fs arbitrary: e) (simp_all add: emitter_frame_rate_nonneg)

lemma emitter_after_negative:
  "remaining e < 0 \<Longrightarrow> remaining (emitter_after fs e) = remaining e"
  by (induction fs arbitrary: e) (simp_all add: emitter_frame_negative)

lemma emitter_after_exhausted:
  "remaining e = 0 \<Longrightarrow> remaining (emitter_after fs e) = 0"
  by (induction fs arbitrary: e) (simp_all add: emitter_frame_exhausted)

lemma emitter_run_exhausted:
  "remaining e = 0 \<Longrightarrow> r \<in> set (emitter_run fs e) \<Longrightarrow> snd r = []"
proof (induction fs arbitrary: e)
  case Nil
  then show ?case by simp
next
  case (Cons f fs)
  have ex: "remaining (fst (emitter_frame f e)) = 0 \<and> snd (emitter_frame f e) = []"
    using Cons.prems(1) by (rule emitter_frame_exhausted)
  from Cons.prems(2)
  have "r = emitter_frame f e \<or> r \<in> set (emitter_run fs (fst (emitter_frame f e)))"
    by (simp add: Let_def)
  then show ?case
  proof
    assume "r = emitter_frame f e"
    with ex show ?thesis by simp
  next
    assume "r \<in> set (emitter_run fs (fst (emitter_frame f e)))"
    with ex Cons.IH show ?thesis by blast
  qed
qed

lemma step_fields:
  "\<not> hot (tick e) \<Longrightarrow>
   tick (fst (emitter_system dt ent e pos)) = reset (tick e) (shd (ticker e)) \<and>
   ticker (fst (emitter_system dt ent e pos)) = stl (ticker e)"
  by (simp add: emitter_system_def Let_def spawn_fields split: option.splits)

lemma step_zero_duration:
  assumes "duration (lt_duration (ept e)) = 0" "\<not> hot (tick e)" "0 < remaining e"
  shows "remaining (fst (emitter_system dt ent e pos))
           = remaining e - min (py_int (vt0 (ept e))) (remaining e)
       \<and> factory_count (snd (emitter_system dt ent e pos))
           = nat (min (py_int (vt0 (ept e))) (remaining e))"
  using assms
  by (simp add: emitter_system_def Let_def spawn_fields spawn_factory_count emitter_t_def
      LerpThing_call_def split: option.splits)

subsection \<open>The aligned scenario\<close>

lemma aligned_scenario: "aligned k (scenario_emitter k n z)"
  by (simp add: aligned_def scenario_emitter_def Emitter_post_init_def const_rate_def
      Cooldown_new_def)

lemma aligned_frame:
  assumes a: "aligned k e" and pos: "0 < remaining e"
  shows "aligned k (fst (emitter_frame (1 / 10, ent, pos) e))
       \<and> remaining (fst (emitter_frame (1 / 10, ent, pos) e))
           = remaining e - min (py_int k) (remaining e)
       \<and> factory_count (snd (emitter_frame (1 / 10, ent, pos) e))
           = nat (min (py_int k) (remaining e))"
proof -
  let ?e = "Emitter_elapse (1 / 10) e"
  have d: "duration (lt_duration (ept ?e)) = 0"
    using a by (simp add: aligned_def Emitter_elapse_def LerpThing_elapse_def elapse_def)
  have v: "vt0 (ept ?e) = k"
    using a by (simp add: aligned_def Emitter_elapse_def LerpThing_elapse_def)
  have h: "\<not> hot (tick ?e)"
    using a by (simp add: aligned_def Emitter_elapse_def elapse_def hot_def)
  have r: "0 < remaining ?e" "remaining ?e = remaining e"
    using pos by (simp_all add: Emitter_elapse_def)
  have tk: "ticker ?e = cycle [1 / 10]"
    using a by (simp add: aligned_def Emitter_elapse_def)
  note st = step_zero_duration[OF d h r(1), of "1 / 10" ent pos]
  note sf = step_fields[OF h, of "1 / 10" ent pos]
  have "aligned k (fst (emitter_system (1 / 10) ent ?e pos))"
    using sf d v tk
    by (simp add: aligned_def emitter_system_ept reset_def)
  with st v r(2) show ?thesis
    by (simp add: emitter_frame_def)
qed

lemma exhausted_run:
  "remaining e = 0 \<Longrightarrow>
     map (\<lambda>r. (factory_count (snd r), remaining (fst r))) (emitter_run fs e)
       = replicate (length fs) (0, 0)"
proof (induction fs arbitrary: e)
  case Nil
  then show ?case by simp
next
  case (Cons f fs)
  have ex: "remaining (fst (emitter_frame f e)) = 0 \<and> snd (emitter_frame f e) = []"
    using Cons.prems by (rule emitter_frame_exhausted)
  then show ?case using Cons.IH[of "fst (emitter_frame f e)"]
    by (simp add: Let_def factory_count_def)
qed

lemma py_int_two: "py_int 2 = 2"
  by (simp add: py_int_def)

lemma scenario_three_frames:
  fixes ent :: Entity and pos :: Vector2
  defines "f \<equiv> (1 / 10, ent, pos)"
  shows "map (\<lambda>r. (factory_count (snd r), remaining (fst r)))
           (emitter_run [f, f, f] (scenario_emitter 2 5 z)) = [(2, 3), (2, 1), (1, 0)]
       \<and> remaining (emitter_after [f, f, f] (scenario_emitter 2 5 z)) = 0"
proof -
  define e0 where "e0 = scenario_emitter 2 5 z"
  define r1 where "r1 = emitter_frame f e0"
  define r2 where "r2 = emitter_frame f (fst r1)"
  define r3 where "r3 = emitter_frame f (fst r2)"
  have a0: "aligned 2 e0" unfolding e0_def by (rule aligned_scenario)
  have r0: "remaining e0 = 5"
    by (simp add: e0_def scenario_emitter_def Emitter_post_init_def)
  have s1: "aligned 2 (fst r1) \<and> remaining (fst r1) = 3 \<and> factory_count (snd r1) = 2"
    using aligned_frame[OF a0, of ent pos] r0 py_int_two by (simp add: r1_def f_def)
  then have s2: "aligned 2 (fst r2) \<and> remaining (fst r2) = 1 \<and> factory_count (snd r2) = 2"
    using aligned_frame[of 2 "fst r1" ent pos] py_int_two by (simp add: r2_def f_def)
  then have s3: "aligned 2 (fst r3) \<and> remaining (fst r3) = 0 \<and> factory_count (snd r3) = 1"
    using aligned_frame[of 2 "fst r2" ent pos] py_int_two by (simp add: r3_def f_def)
  have run: "emitter_run [f, f, f] e0 = [r1, r2, r3]"
    by (simp add: Let_def r1_def r2_def r3_def)
  have after: "emitter_after [f, f, f] e0 = fst r3"
    by (simp add: r1_def r2_def r3_def)
  show ?thesis
    unfolding e0_def[symmetric] run after using s1 s2 s3 by simp
qed

lemma rate_nonneg_const: "0 \<le> k \<Longrightarrow> rate_nonneg (const_rate k)"
  by (simp add: rate_nonneg_def const_rate_def LerpThing_call_def lerp_def algebra_simps)

subsection \<open>An emission window that is over\<close>

lemma emission_over_elapse:
  "0 \<le> dt \<Longrightarrow> emission_over lt \<Longrightarrow> emission_over (LerpThing_elapse dt lt)"
  by (simp add: emission_over_def LerpThing_elapse_def elapse_def cold_def hot_def)

lemma emitter_system_over:
  "emission_over (ept e) \<Longrightarrow> snd (emitter_system dt ent e pos) = []"
  by (simp add: emitter_system_def Let_def emitter_t_def emission_over_def)

lemma emitter_frame_over:
  assumes "emission_over (ept e)" "0 \<le> fst f"
  shows "emission_over (ept (fst (emitter_frame f e))) \<and> snd (emitter_frame f e) = []"
proof -
  have o: "emission_over (ept (Emitter_elapse (fst f) e))"
    using assms by (simp add: Emitter_elapse_def emission_over_elapse)
  have "snd (emitter_system (fst f) (fst (snd f)) (Emitter_elapse (fst f) e) (snd (snd f))) = []"
    using o by (rule emitter_system_over)
  moreover have "emission_over (ept (fst (emitter_frame f e)))"
    using assms by (simp add: emitter_frame_ept emission_over_elapse)
  ultimately show ?thesis by (simp add: emitter_frame_def split_beta)
qed

lemma emitter_run_over:
  "emission_over (ept e) \<Longrightarrow> \<forall>f \<in> set fs. 0 \<le> fst f \<Longrightarrow> r \<in> set (emitter_run fs e)
     \<Longrightarrow> snd r = []"
proof (induction fs arbitrary: e)
  case Nil
  then show ?case by simp
next
  case (Cons f fs)
  have ov: "emission_over (ept (fst (emitter_frame f e))) \<and> snd (emitter_frame f e) = []"
    using Cons.prems(1,2) by (simp add: emitter_frame_over)
  from Cons.prems(3)
  have "r = emitter_frame f e \<or> r \<in> set (emitter_run fs (fst (emitter_frame f e)))"
    by (simp add: Let_def)
  then show ?case
  proof
    assume "r = emitter_frame f e"
    with ov show ?thesis by simp
  next
    assume "r \<in> set (emitter_run fs (fst (emitter_frame f e)))"
    moreover have "\<forall>g \<in> set fs. 0 \<le> fst g" using Cons.prems(2) by simp
    ultimately show ?thesis using ov Cons.IH[of "fst (emitter_frame f e)"] by blast
  qed
qed


lemma zero_duration_elapse:
  "duration (lt_duration (LerpThing_elapse dt lt)) = duration (lt_duration lt)"
  by (simp add: LerpThing_elapse_def elapse_def)

lemma emitter_system_t_zero:
  assumes "duration (lt_duration (ept e)) = 0" "lifetime ent = None"
    and "c \<in> set (snd (emitter_system dt ent e pos))"
  shows "call_t c = 0"
proof -
  have t: "emitter_t ent (ept e) = Some 0"
    using assms(1,2) by (simp add: emitter_t_def)
  have "snd (emitter_system dt ent e pos) = [] \<or>
        (\<exists>n e' em. snd (emitter_system dt ent e pos) = snd (spawn n e' 0 pos em))"
    using t by (simp add: emitter_system_def Let_def) blast
  then show ?thesis
  proof
    assume "snd (emitter_system dt ent e pos) = []"
    with assms(3) show ?thesis by simp
  next
    assume "\<exists>n e' em. snd (emitter_system dt ent e pos) = snd (spawn n e' 0 pos em)"
    then obtain n e' em where "snd (emitter_system dt ent e pos) = snd (spawn n e' 0 pos em)"
      by blast
    with assms(3) have "c \<in> set (snd (spawn n e' 0 pos em))" by simp
    then show ?thesis by (rule spawn_call_t)
  qed
qed

lemma emitter_run_t_zero:
  "duration (lt_duration (ept e)) = 0 \<Longrightarrow> \<forall>f \<in> set fs. lifetime (fst (snd f)) = None
     \<Longrightarrow> r \<in> set (emitter_run fs e) \<Longrightarrow> c \<in> set (snd r) \<Longrightarrow> call_t c = 0"
proof (induction fs arbitrary: e)
  case Nil
  then show ?case by simp
next
  case (Cons f fs)
  have d: "duration (lt_duration (ept (Emitter_elapse (fst f) e))) = 0"
    using Cons.prems(1) by (simp add: Emitter_elapse_def zero_duration_elapse)
  have d': "duration (lt_duration (ept (fst (emitter_frame f e)))) = 0"
    using Cons.prems(1) by (simp add: emitter_frame_ept zero_duration_elapse)
  have l: "lifetime (fst (snd f)) = None" using Cons.prems(2) by simp
  from Cons.prems(3)
  have "r = emitter_frame f e \<or> r \<in> set (emitter_run fs (fst (emitter_frame f e)))"
    by (simp add: Let_def)
  then show ?case
  proof
    assume "r = emitter_frame f e"
    then have "c \<in> set (snd (emitter_system (fst f) (fst (snd f)) (Emitter_elapse (fst f) e)
                                (snd (snd f))))"
      using Cons.prems(4) by (simp add: emitter_frame_def split_beta)
    with d l show ?thesis by (rule emitter_system_t_zero)
  next
    assume "r \<in> set (emitter_run fs (fst (emitter_frame f e)))"
    moreover have "\<forall>g \<in> set fs. lifetime (fst (snd g)) = None" using Cons.prems(2) by simp
    ultimately show ?thesis using d' Cons.IH[of "fst (emitter_frame f e)"] Cons.prems(4) by blast
  qed
qed

subsection \<open>The calls of an update\<close>

lemma expired_emitter_facts:
  "cold (tick expired_emitter)" "emission_over (ept expired_emitter)"
  "shd (ticker expired_emitter) = 1 / 10"
  by (simp_all add: expired_emitter_def Emitter_post_init_def expired_rate_def
      LerpThing_elapse_def elapse_def Cooldown_new_def cold_def hot_def emission_over_def)

lemma spawn_factory:
  "ParticleFactory t' p m \<in> set (snd (spawn n e t pos em)) \<Longrightarrow>
     \<exists>k. t' = t \<and> p = vadd pos (fst (zone e k t))
        \<and> m = compose_momentum (inherit_momentum e) em (snd (zone e k t))"
proof (induction n arbitrary: e)
  case 0
  then show ?case by simp
next
  case (Suc n)
  let ?e1 = "e\<lparr>zone_calls := Suc (zone_calls e)\<rparr>"
  from Suc.prems
  have "(t' = t \<and> p = vadd pos (fst (zone e (zone_calls e) t))
           \<and> m = compose_momentum (inherit_momentum e) em (snd (zone e (zone_calls e) t)))
        \<or> ParticleFactory t' p m \<in> set (snd (spawn n ?e1 t pos em))"
    by (simp add: Let_def split_beta)
  then show ?case
  proof
    assume "t' = t \<and> p = vadd pos (fst (zone e (zone_calls e) t))
           \<and> m = compose_momentum (inherit_momentum e) em (snd (zone e (zone_calls e) t))"
    then show ?thesis by blast
  next
    assume "ParticleFactory t' p m \<in> set (snd (spawn n ?e1 t pos em))"
    from Suc.IH[OF this] show ?thesis by simp
  qed
qed

lemma compose_momentum_eq:
  "compose_momentum inh em zm =
     vadd (if inh AND 1 \<noteq> 0 then em else Vector2 0 0) (if inh AND 2 \<noteq> 0 then zm else Vector2 0 0)"
  by (simp add: compose_momentum_def vadd_def Let_def)

lemma emitter_system_calls:
  "snd (emitter_system dt ent e pos) = [] \<or>
   (\<exists>n e' t. zone e' = zone e \<and> inherit_momentum e' = inherit_momentum e \<and>
      snd (emitter_system dt ent e pos)
        = snd (spawn n e' t pos (entity_momentum (inherit_momentum e) ent)))"
proof (cases "hot (tick e) \<or> remaining e = 0 \<or> emitter_t ent (ept e) = None")
  case True
  then have "snd (emitter_system dt ent e pos) = []"
    by (auto simp add: emitter_system_def Let_def)
  then show ?thesis by simp
next
  case False
  then obtain t where t: "emitter_t ent (ept e) = Some t" by auto
  let ?e0 = "e\<lparr>tick := reset (tick e) (shd (ticker e)), ticker := stl (ticker e)\<rparr>"
  let ?emits0 = "py_int (LerpThing_call (ept e))"
  let ?emits = "if remaining e > 0 then min ?emits0 (remaining e) else ?emits0"
  let ?e' = "if remaining e > 0 then ?e0\<lparr>remaining := remaining e - ?emits\<rparr> else ?e0"
  have "snd (emitter_system dt ent e pos)
          = snd (spawn (nat ?emits) ?e' t pos (entity_momentum (inherit_momentum e) ent))"
    using False t by (simp add: emitter_system_def Let_def entity_momentum_def)
  moreover have "zone ?e' = zone e \<and> inherit_momentum ?e' = inherit_momentum e" by simp
  ultimately show ?thesis by blast
qed

lemma entity_momentum_compose:
  "compose_momentum inh (entity_momentum inh ent) zm =
     vadd (entity_momentum inh ent) (if inh AND 2 \<noteq> 0 then zm else Vector2 0 0)"
  by (simp add: compose_momentum_eq entity_momentum_def)

lemma three_bits: "(3::int) AND 1 = 1" "(3::int) AND 2 = 2"
  by simp_all

lemma emitter_system_spawn:
  assumes "\<not> hot (tick e)" "remaining e < 0" "emitter_t ent (ept e) = Some t"
  shows "snd (emitter_system dt ent e pos)
           = snd (spawn (nat (py_int (LerpThing_call (ept e))))
                   (e\<lparr>tick := reset (tick e) (shd (ticker e)), ticker := stl (ticker e)\<rparr>)
                   t pos (entity_momentum (inherit_momentum e) ent))"
  using assms by (simp add: emitter_system_def Let_def entity_momentum_def)

lemma momentum_emitter_facts:
  "\<not> hot (tick momentum_emitter)" "remaining momentum_emitter < 0"
  "emitter_t moving_entity (ept momentum_emitter) = Some 0"
  "py_int (LerpThing_call (ept momentum_emitter)) = 2"
  "inherit_momentum momentum_emitter = 3" "zone momentum_emitter = momentum_zone"
  by (simp_all add: momentum_emitter_def Emitter_post_init_def Cooldown_new_def hot_def
      emitter_t_def const_rate_def moving_entity_def LerpThing_call_def py_int_def)

lemma momentum_emitter_member:
  "ParticleFactory 0 (Vector2 0 0) (compose_momentum 3 (Vector2 5 0) (Vector2 0 3))
     \<in> set (snd (emitter_system (1 / 10) moving_entity momentum_emitter (Vector2 0 0)))"
proof -
  have n2: "nat 2 = Suc (Suc 0)" by simp
  have em: "entity_momentum 3 moving_entity = Vector2 5 0"
    by (simp add: entity_momentum_def moving_entity_def)
  show ?thesis
    unfolding emitter_system_spawn[OF momentum_emitter_facts(1,2,3)] momentum_emitter_facts(4,5) n2 em
    by (simp add: Let_def momentum_emitter_facts(5,6) momentum_zone_def vadd_def)
qed

lemma snth_cycle_single: "cycle [x] !! n = x"
  by (induction n) simp_all

section \<open>Properties of the zones and of the glue\<close>

lemma sqrt_25: "sqrt 25 = 5"
  by (rule real_sqrt_unique) simp_all

lemma py_int_abs: "\<bar>of_int (py_int x) :: real\<bar> \<le> \<bar>x\<bar>"
  by (simp add: py_int_def)

lemma centred_sample: 
  fixes r :: real and w :: int
  assumes "0 \<le> r" "r < 1" "0 \<le> w"
  shows "\<bar>of_int w * (r - 1 / 2)\<bar> \<le> of_int w / 2"
proof -
  have "\<bar>r - 1 / 2\<bar> \<le> 1 / 2" using assms by linarith
  then have "of_int w * \<bar>r - 1 / 2\<bar> \<le> of_int w * (1 / 2)"
    using assms(3) by (intro mult_left_mono) simp_all
  then show ?thesis using assms(3) by (simp add: abs_mult)
qed

lemma alpha_only_system:
  assumes "rotate p = None" "scale p = None" "alpha p = Some a"
  shows "particle_rsai_system dt p rsai = rsai\<lparr>rsai_alpha := LerpThing_v a, lock := False\<rparr>"
  using assms by (simp add: particle_rsai_system_def particle_rsai_writes_def)

lemma alpha_only_elapse:
  assumes "rotate p = None" "scale p = None" "alpha p = Some a"
  shows "rotate (Particle_elapse dt p) = None \<and> scale (Particle_elapse dt p) = None
       \<and> alpha (Particle_elapse dt p) = Some (LerpThing_elapse dt a)"
  using assms by (simp add: Particle_elapse_def)

lemma alpha_only_after:
  "rotate p = None \<Longrightarrow> scale p = None \<Longrightarrow> alpha p = Some a \<Longrightarrow>
     alpha (fst (particle_after dts p rsai)) = Some (elapse_all dts a)
   \<and> rsai_rotate (snd (particle_after dts p rsai)) = rsai_rotate rsai
   \<and> rsai_scale (snd (particle_after dts p rsai)) = rsai_scale rsai
   \<and> (dts \<noteq> [] \<longrightarrow> rsai_alpha (snd (particle_after dts p rsai)) = LerpThing_v (elapse_all dts a)
                    \<and> \<not> lock (snd (particle_after dts p rsai)))"
proof (induction dts arbitrary: p rsai a)
  case Nil
  then show ?case by (simp add: elapse_all_def)
next
  case (Cons dt dts)
  let ?p1 = "Particle_elapse dt p"
  let ?a1 = "LerpThing_elapse dt a"
  let ?r1 = "particle_rsai_system dt ?p1 rsai"
  have e: "rotate ?p1 = None" "scale ?p1 = None" "alpha ?p1 = Some ?a1"
    using alpha_only_elapse[OF Cons.prems] by simp_all
  have r1: "?r1 = rsai\<lparr>rsai_alpha := LerpThing_v ?a1, lock := False\<rparr>"
    using e by (rule alpha_only_system)
  have ea: "elapse_all (dt # dts) a = elapse_all dts ?a1" by (simp add: elapse_all_def)
  note ih = Cons.IH[OF e, of ?r1]
  show ?case
  proof (cases "dts = []")
    case True
    then show ?thesis using e r1 by (simp add: elapse_all_def)
  next
    case False
    then show ?thesis using ih r1 by (simp add: ea)
  qed
qed

lemma fade_half: "LerpThing_v (elapse_all [1 / 2] fade_out) = 255 / 2"
  by (simp add: elapse_all_def fade_out_def LerpThing_v_def LerpThing_call_def
      LerpThing_elapse_def elapse_def Cooldown_new_def normalized_def lerp_def)

section \<open>The claims\<close>

text \<open>
  C1, as stated: for every emitter the remaining-emits counter never increases. It does
  when the emission rate is negative: with a constant rate of -2 and a budget of 5, the
  first update computes \<open>min(-2, 5) = -2\<close> and subtracts it, leaving 7.
\<close>

theorem remaining_emits_increase:
  "\<not> remaining (emitter_after [(1 / 10, bare_entity, Vector2 0 0)]
                  (scenario_emitter (- 2) 5 zone_origin))
       \<le> remaining (scenario_emitter (- 2) 5 zone_origin)"
proof -
  define e0 where "e0 = scenario_emitter (- 2) 5 zone_origin"
  have a0: "aligned (- 2) e0" unfolding e0_def by (rule aligned_scenario)
  have r0: "remaining e0 = 5"
    by (simp add: e0_def scenario_emitter_def Emitter_post_init_def)
  have p: "py_int (- 2) = - 2" by (simp add: py_int_def)
  have "remaining (fst (emitter_frame (1 / 10, bare_entity, Vector2 0 0) e0)) = 7"
    using aligned_frame[OF a0, of bare_entity "Vector2 0 0"] r0 p by simp
  then show ?thesis using r0 by (simp add: e0_def)
qed

text \<open>
  C1, amended: across any sequence of updates \<open>fs\<close> followed by any further updates
  \<open>gs\<close>, the remaining-emits counter does not increase provided the emission-rate driver
  never yields a negative value; an emitter whose counter is the sentinel -1 keeps it
  forever; and once the counter is 0 it stays 0 and no later update makes any call, to the
  zone or to the particle factory.
\<close>

theorem remaining_emits_monotone:
  "(rate_nonneg (ept e) \<longrightarrow>
      remaining (emitter_after (fs @ gs) e) \<le> remaining (emitter_after fs e))
   \<and> remaining (emitter_after fs (e\<lparr>remaining := - 1\<rparr>)) = - 1
   \<and> (remaining (emitter_after fs e) = 0 \<longrightarrow>
         remaining (emitter_after (fs @ gs) e) = 0
       \<and> (\<forall>r \<in> set (emitter_run gs (emitter_after fs e)). snd r = []))"
proof -
  have a: "rate_nonneg (ept e) \<longrightarrow>
      remaining (emitter_after (fs @ gs) e) \<le> remaining (emitter_after fs e)"
    by (simp add: emitter_after_append emitter_after_decreases emitter_after_rate_nonneg)
  have b: "remaining (emitter_after fs (e\<lparr>remaining := - 1\<rparr>)) = - 1"
    by (simp add: emitter_after_negative)
  have c: "remaining (emitter_after fs e) = 0 \<longrightarrow>
            remaining (emitter_after (fs @ gs) e) = 0
          \<and> (\<forall>r \<in> set (emitter_run gs (emitter_after fs e)). snd r = [])"
    by (auto simp add: emitter_after_append emitter_after_exhausted emitter_run_exhausted)
  from a b c show ?thesis by blast
qed

theorem remaining_emits_monotone_witness:
  "rate_nonneg (ept (scenario_emitter 2 5 zone_origin))
   \<and> remaining (emitter_after
         ([(1 / 10, bare_entity, Vector2 0 0), (1 / 10, bare_entity, Vector2 0 0),
           (1 / 10, bare_entity, Vector2 0 0)] @ [(1 / 10, bare_entity, Vector2 0 0)])
         (scenario_emitter 2 5 zone_origin))
       \<le> remaining (emitter_after
         [(1 / 10, bare_entity, Vector2 0 0), (1 / 10, bare_entity, Vector2 0 0),
          (1 / 10, bare_entity, Vector2 0 0)] (scenario_emitter 2 5 zone_origin))
   \<and> remaining (emitter_after
         [(1 / 10, bare_entity, Vector2 0 0), (1 / 10, bare_entity, Vector2 0 0),
          (1 / 10, bare_entity, Vector2 0 0)] (scenario_emitter 2 5 zone_origin)) = 0
   \<and> remaining (emitter_after
         ([(1 / 10, bare_entity, Vector2 0 0), (1 / 10, bare_entity, Vector2 0 0),
           (1 / 10, bare_entity, Vector2 0 0)] @ [(1 / 10, bare_entity, Vector2 0 0)])
         (scenario_emitter 2 5 zone_origin)) = 0
   \<and> map snd (emitter_run [(1 / 10, bare_entity, Vector2 0 0)]
        (emitter_after
          [(1 / 10, bare_entity, Vector2 0 0), (1 / 10, bare_entity, Vector2 0 0),
           (1 / 10, bare_entity, Vector2 0 0)] (scenario_emitter 2 5 zone_origin))) = [[]]"
proof -
  define f :: frame where "f = (1 / 10, bare_entity, Vector2 0 0)"
  define e0 where "e0 = scenario_emitter 2 5 zone_origin"
  have h1: "rate_nonneg (ept e0)"
    by (simp add: e0_def scenario_emitter_def Emitter_post_init_def rate_nonneg_const)
  have h2: "remaining (emitter_after [f, f, f] e0) = 0"
    using scenario_three_frames[of bare_entity "Vector2 0 0" zone_origin]
    by (simp only: f_def e0_def)
  note th = remaining_emits_monotone[of e0 "[f, f, f]" "[f]"]
  have c1: "remaining (emitter_after ([f, f, f] @ [f]) e0) \<le> remaining (emitter_after [f, f, f] e0)"
    using th h1 by blast
  have c2: "remaining (emitter_after ([f, f, f] @ [f]) e0) = 0"
    using th h2 by blast
  have "\<forall>r \<in> set (emitter_run [f] (emitter_after [f, f, f] e0)). snd r = []"
    using th h2 by blast
  then have c3: "map snd (emitter_run [f] (emitter_after [f, f, f] e0)) = [[]]"
    by (simp add: Let_def)
  from h1 c1 h2 c2 c3 show ?thesis
    unfolding f_def e0_def by blast
qed

text \<open>
  C2: the end-to-end scenario. With \<open>tick_sequence = [0.1]\<close>, a constant rate of 2 with
  zero duration, a budget of 5 and frames 0.1s apart, the first three ticks spawn 2, 2 and
  1 particles and leave 3, 1 and 0 remaining; the fourth and every later tick spawns 0.
\<close>

theorem scenario_budget_five:
  "map (\<lambda>r. (factory_count (snd r), remaining (fst r)))
     (emitter_run (replicate (4 + n) (1 / 10, ent, pos)) (scenario_emitter 2 5 z))
   = [(2, 3), (2, 1), (1, 0)] @ replicate (Suc n) (0, 0)"
proof -
  define f :: frame where "f = (1 / 10, ent, pos)"
  define e0 where "e0 = scenario_emitter 2 5 z"
  define tl_fs where "tl_fs = replicate (Suc n) f"
  have three: "map (\<lambda>r. (factory_count (snd r), remaining (fst r))) (emitter_run [f, f, f] e0)
                 = [(2, 3), (2, 1), (1, 0)]"
    and zero: "remaining (emitter_after [f, f, f] e0) = 0"
    using scenario_three_frames[of ent pos z] by (simp_all only: f_def e0_def)
  have n4: "4 + n = Suc (Suc (Suc (Suc n)))" by simp
  have split: "replicate (4 + n) f = [f, f, f] @ tl_fs"
    unfolding n4 tl_fs_def by simp
  have rest: "map (\<lambda>r. (factory_count (snd r), remaining (fst r)))
                (emitter_run tl_fs (emitter_after [f, f, f] e0)) = replicate (Suc n) (0, 0)"
    using exhausted_run[OF zero, of tl_fs] by (simp add: tl_fs_def)
  have "map (\<lambda>r. (factory_count (snd r), remaining (fst r)))
          (emitter_run (replicate (4 + n) f) e0)
        = [(2, 3), (2, 1), (1, 0)] @ replicate (Suc n) (0, 0)"
    unfolding split emitter_run_append map_append three rest by (rule refl)
  then show ?thesis by (simp only: f_def e0_def)
qed

text \<open>
  C3: once the tick timer is cold, the update re-arms it with the next value of the ticker,
  whatever else holds; and when the emitter is exhausted or its emission window (a
  duration other than zero, in particular a positive one) is over, neither that update nor
  any update of the frames that follow (time not running backwards) calls the zone or the
  particle factory.
\<close>

theorem rearm_unconditional:
  assumes "cold (tick e)"
  shows "tick (fst (emitter_system dt ent e pos)) = reset (tick e) (shd (ticker e))
       \<and> ticker (fst (emitter_system dt ent e pos)) = stl (ticker e)
       \<and> (remaining e = 0 \<or> emission_over (ept e) \<longrightarrow>
            (\<forall>f \<in> set fs. 0 \<le> fst f) \<longrightarrow>
            snd (emitter_system dt ent e pos) = []
          \<and> (\<forall>r \<in> set (emitter_run fs (fst (emitter_system dt ent e pos))). snd r = []))"
proof -
  have h: "\<not> hot (tick e)" using assms by (simp add: cold_def)
  note sf = step_fields[OF h, of dt ent pos]
  have c: "remaining e = 0 \<or> emission_over (ept e) \<longrightarrow>
            (\<forall>f \<in> set fs. 0 \<le> fst f) \<longrightarrow>
            snd (emitter_system dt ent e pos) = []
          \<and> (\<forall>r \<in> set (emitter_run fs (fst (emitter_system dt ent e pos))). snd r = [])"
  proof (intro impI)
    assume d: "remaining e = 0 \<or> emission_over (ept e)"
    assume nn: "\<forall>f \<in> set fs. 0 \<le> fst f"
    from d show "snd (emitter_system dt ent e pos) = []
          \<and> (\<forall>r \<in> set (emitter_run fs (fst (emitter_system dt ent e pos))). snd r = [])"
    proof
      assume z: "remaining e = 0"
      then have "remaining (fst (emitter_system dt ent e pos)) = 0
                 \<and> snd (emitter_system dt ent e pos) = []"
        by (rule emitter_system_exhausted)
      then show ?thesis using emitter_run_exhausted by blast
    next
      assume o: "emission_over (ept e)"
      then have "emission_over (ept (fst (emitter_system dt ent e pos)))"
        by (simp add: emitter_system_ept)
      then show ?thesis using emitter_system_over[OF o] emitter_run_over nn by blast
    qed
  qed
  from sf c show ?thesis by blast
qed

theorem rearm_unconditional_witness:
  "cold (tick expired_emitter) \<and> emission_over (ept expired_emitter) \<and> (0::real) \<le> 1 / 10
   \<and> tick (fst (emitter_system (1 / 10) bare_entity expired_emitter (Vector2 0 0)))
       = reset (tick expired_emitter) (1 / 10)
   \<and> snd (emitter_system (1 / 10) bare_entity expired_emitter (Vector2 0 0)) = []
   \<and> map snd (emitter_run [(1 / 10, bare_entity, Vector2 0 0)]
        (fst (emitter_system (1 / 10) bare_entity expired_emitter (Vector2 0 0)))) = [[]]"
proof -
  define f :: frame where "f = (1 / 10, bare_entity, Vector2 0 0)"
  define r where "r = emitter_system (1 / 10) bare_entity expired_emitter (Vector2 0 0)"
  note th = rearm_unconditional[OF expired_emitter_facts(1), of "1 / 10" bare_entity "Vector2 0 0" "[f]"]
  have nn: "\<forall>g \<in> set [f]. 0 \<le> fst g" by (simp add: f_def)
  have a: "tick (fst r) = reset (tick expired_emitter) (1 / 10)"
    using th expired_emitter_facts(3) by (simp add: r_def)
  have b: "snd r = [] \<and> (\<forall>x \<in> set (emitter_run [f] (fst r)). snd x = [])"
    using th expired_emitter_facts(2) nn unfolding r_def by blast
  then have c: "map snd (emitter_run [f] (fst r)) = [[]]"
    by (simp add: Let_def)
  from a b c expired_emitter_facts(1,2) show ?thesis
    unfolding f_def r_def by simp
qed

text \<open>
  C4: every particle that an update spawns gets the momentum "entity part plus zone part":
  the entity part is the zero vector when bit 0 of \<open>inherit_momentum\<close> is unset or the
  entity has no momentum component, the zone part is the zero vector when bit 1 is unset.
  With \<open>inherit_momentum = 3\<close>, entity momentum (5, 0) and a zone that returns the
  momentum (0, 3), every spawned particle gets exactly (5, 3).
\<close>

theorem momentum_inheritance:
  assumes "ParticleFactory t p m \<in> set (snd (emitter_system dt ent e pos))"
  shows "(\<exists>k. p = vadd pos (fst (zone e k t))
            \<and> m = vadd (entity_momentum (inherit_momentum e) ent)
                       (if inherit_momentum e AND 2 \<noteq> 0 then snd (zone e k t) else Vector2 0 0))
       \<and> (inherit_momentum e AND 1 = 0 \<or> momentum ent = None \<longrightarrow>
            entity_momentum (inherit_momentum e) ent = Vector2 0 0)
       \<and> (inherit_momentum e = 3 \<and> momentum ent = Some (Vector2 5 0)
            \<and> (\<forall>k. snd (zone e k t) = Vector2 0 3) \<longrightarrow> m = Vector2 5 3)"
proof -
  from emitter_system_calls[of dt ent e pos] assms
  obtain n e' t0 where e': "zone e' = zone e" "inherit_momentum e' = inherit_momentum e"
    and s: "snd (emitter_system dt ent e pos)
              = snd (spawn n e' t0 pos (entity_momentum (inherit_momentum e) ent))"
    by auto
  from assms s
  have "ParticleFactory t p m
          \<in> set (snd (spawn n e' t0 pos (entity_momentum (inherit_momentum e) ent)))"
    by simp
  from spawn_factory[OF this] e'
  obtain k where k: "t = t0" "p = vadd pos (fst (zone e k t0))"
    "m = compose_momentum (inherit_momentum e) (entity_momentum (inherit_momentum e) ent)
           (snd (zone e k t0))"
    by auto
  have a: "p = vadd pos (fst (zone e k t))
            \<and> m = vadd (entity_momentum (inherit_momentum e) ent)
                       (if inherit_momentum e AND 2 \<noteq> 0 then snd (zone e k t) else Vector2 0 0)"
    using k by (simp add: entity_momentum_compose)
  have b: "inherit_momentum e AND 1 = 0 \<or> momentum ent = None \<longrightarrow>
            entity_momentum (inherit_momentum e) ent = Vector2 0 0"
    by (auto simp add: entity_momentum_def)
  have c: "inherit_momentum e = 3 \<and> momentum ent = Some (Vector2 5 0)
            \<and> (\<forall>k. snd (zone e k t) = Vector2 0 3) \<longrightarrow> m = Vector2 5 3"
    using a by (simp add: entity_momentum_def vadd_def)
  from a b c show ?thesis by blast
qed

theorem momentum_inheritance_witness:
  "ParticleFactory 0 (Vector2 0 0) (compose_momentum 3 (Vector2 5 0) (Vector2 0 3))
     \<in> set (snd (emitter_system (1 / 10) moving_entity momentum_emitter (Vector2 0 0)))
   \<and> inherit_momentum momentum_emitter = 3
   \<and> momentum moving_entity = Some (Vector2 5 0)
   \<and> snd (zone momentum_emitter 0 0) = Vector2 0 3
   \<and> compose_momentum 3 (Vector2 5 0) (Vector2 0 3) = Vector2 5 3"
proof -
  have z: "\<forall>k. snd (zone momentum_emitter k 0) = Vector2 0 3"
    by (simp add: momentum_emitter_facts(6) momentum_zone_def)
  have m: "momentum moving_entity = Some (Vector2 5 0)" by (simp add: moving_entity_def)
  from momentum_inheritance[OF momentum_emitter_member] momentum_emitter_facts(5) m z
  have "compose_momentum 3 (Vector2 5 0) (Vector2 0 3) = Vector2 5 3" by blast
  with momentum_emitter_member momentum_emitter_facts(5) m z show ?thesis by simp
qed

text \<open>
  C5, as stated: an empty tick-interval sequence is rejected at construction and never
  falls back to a default heartbeat. \<open>__post_init__\<close> raises nothing; with an empty
  \<open>ticklist\<close> it builds the ticker from \<open>tick\<close>, here the default 0.1.
\<close>

theorem empty_ticklist_default_heartbeat:
  "ticker (Emitter_post_init (const_rate 2) (1 / 10) [] (Some 5) zone_origin 3) = cycle [1 / 10]
   \<and> shd (ticker (Emitter_post_init (const_rate 2) (1 / 10) [] (Some 5) zone_origin 3)) = 1 / 10"
  by (simp add: Emitter_post_init_def)

text \<open>
  C5, amended: constructing an Emitter with an empty tick-interval sequence is accepted and
  falls back to the constant heartbeat \<open>tick\<close>: the ticker repeats \<open>tick\<close> forever,
  and the first update re-arms the tick timer with it.
\<close>

theorem empty_ticklist_falls_back:
  "ticker (Emitter_post_init ep tk [] budget z inh) = cycle [tk]
   \<and> ticker (Emitter_post_init ep tk [] budget z inh) !! n = tk
   \<and> tick (fst (emitter_system dt ent (Emitter_post_init ep tk [] budget z inh) pos))
       = \<lparr>duration = tk, remaining_time = tk\<rparr>"
proof -
  let ?e = "Emitter_post_init ep tk [] budget z inh"
  have t: "ticker ?e = cycle [tk]" by (simp add: Emitter_post_init_def)
  have h: "\<not> hot (tick ?e)" by (simp add: Emitter_post_init_def Cooldown_new_def hot_def)
  have "tick (fst (emitter_system dt ent ?e pos)) = reset (tick ?e) (shd (ticker ?e))"
    using step_fields[OF h] by simp
  then have "tick (fst (emitter_system dt ent ?e pos)) = \<lparr>duration = tk, remaining_time = tk\<rparr>"
    by (simp add: t reset_def Emitter_post_init_def Cooldown_new_def)
  with t show ?thesis by (simp add: snth_cycle_single)
qed

text \<open>
  C7: when the rate driver has zero duration and the entity has no lifetime component in
  any frame, every call an update makes, to the zone's emit and to the particle factory,
  is passed \<open>t = 0\<close>.
\<close>

theorem zero_duration_t_zero:
  assumes "duration (lt_duration (ept e)) = 0"
    and "\<forall>f \<in> set fs. lifetime (fst (snd f)) = None"
  shows "\<forall>r \<in> set (emitter_run fs e). \<forall>c \<in> set (snd r). call_t c = 0"
  using assms emitter_run_t_zero by blast

theorem zero_duration_t_zero_witness:
  "duration (lt_duration (ept (scenario_emitter 2 5 zone_origin))) = 0
   \<and> lifetime bare_entity = None
   \<and> factory_count (snd (emitter_frame (1 / 10, bare_entity, Vector2 0 0)
                            (scenario_emitter 2 5 zone_origin))) = 2
   \<and> list_all (\<lambda>c. call_t c = 0)
        (snd (emitter_frame (1 / 10, bare_entity, Vector2 0 0)
               (scenario_emitter 2 5 zone_origin)))"
proof -
  define f :: frame where "f = (1 / 10, bare_entity, Vector2 0 0)"
  define e0 where "e0 = scenario_emitter 2 5 zone_origin"
  have d: "duration (lt_duration (ept e0)) = 0"
    using aligned_scenario[of 2 5 zone_origin] by (simp add: aligned_def e0_def)
  have l: "lifetime bare_entity = None" by (simp add: bare_entity_def)
  have ls: "\<forall>g \<in> set [f]. lifetime (fst (snd g)) = None" by (simp add: f_def l)
  have r0: "remaining e0 = 5"
    by (simp add: e0_def scenario_emitter_def Emitter_post_init_def)
  have n: "factory_count (snd (emitter_frame f e0)) = 2"
    using aligned_frame[OF aligned_scenario, of 2 5 zone_origin bare_entity "Vector2 0 0"]
      r0 py_int_two by (simp add: f_def e0_def)
  have "\<forall>r \<in> set (emitter_run [f] e0). \<forall>c \<in> set (snd r). call_t c = 0"
    using zero_duration_t_zero[OF d ls] .
  then have a: "list_all (\<lambda>c. call_t c = 0) (snd (emitter_frame f e0))"
    by (simp add: Let_def list_all_iff)
  from d l n a show ?thesis unfolding f_def e0_def by simp
qed

text \<open>
  C6: the momentum of a Beam sample is perpendicular to the line vector \<open>v\<close>. It is not:
  \<open>__post_init__\<close> builds the displacement direction as \<open>Vector2(v.y, v.x)\<close>, the
  mirror image of \<open>v\<close> and not a perpendicular. For \<open>v = (3, 4)\<close> and width 10 the stored
  vector is (8, 6), the sample with \<open>rnd_p() = rnd_m() = 0\<close> has momentum (-4, -3), and
  its dot product with \<open>v\<close> is -24.
\<close>

theorem beam_momentum_not_perpendicular:
  "ZoneBeam_post_init (Vector2 3 4) 10 = Inr \<lparr>beam_v = Vector2 3 4, beam_w = Vector2 8 6\<rparr>
   \<and> ZoneBeam_emit \<lparr>beam_v = Vector2 3 4, beam_w = Vector2 8 6\<rparr> 0 0
       = (Vector2 (- 4) (- 3), Vector2 (- 4) (- 3))
   \<and> vdot (Vector2 3 4) (Vector2 (- 4) (- 3)) = - 24"
  by (simp add: ZoneBeam_post_init_def normalize_def vlength_def sqrt_25 vscale_def
      ZoneBeam_emit_def vadd_def vdot_def Let_def)

text \<open>
  C8: for a particle with only the \<open>alpha\<close> driver, an update writes lock, alpha, lock in
  that order, the descriptor is locked after the first and after the second write and
  unlocked when the update returns; after any frames the descriptor's rotate and scale are
  what they were, and after one or more frames its alpha is the current value of the
  driver and its lock is clear.
\<close>

theorem alpha_only_glue:
  assumes "rotate p = None" "scale p = None" "alpha p = Some a"
  shows "particle_rsai_writes p = [SetLock True, SetAlpha (LerpThing_v a), SetLock False]
       \<and> lock (foldl apply_write rsai [SetLock True])
       \<and> lock (foldl apply_write rsai [SetLock True, SetAlpha (LerpThing_v a)])
       \<and> \<not> lock (particle_rsai_system dt p rsai)
       \<and> rsai_rotate (snd (particle_after dts p rsai)) = rsai_rotate rsai
       \<and> rsai_scale (snd (particle_after dts p rsai)) = rsai_scale rsai
       \<and> rsai_alpha (snd (particle_after (dts @ [dt]) p rsai))
           = LerpThing_v (elapse_all (dts @ [dt]) a)
       \<and> alpha (fst (particle_after (dts @ [dt]) p rsai)) = Some (elapse_all (dts @ [dt]) a)
       \<and> \<not> lock (snd (particle_after (dts @ [dt]) p rsai))"
proof -
  have w: "particle_rsai_writes p = [SetLock True, SetAlpha (LerpThing_v a), SetLock False]"
    using assms by (simp add: particle_rsai_writes_def)
  have l: "\<not> lock (particle_rsai_system dt p rsai)"
    using alpha_only_system[OF assms] by simp
  note a1 = alpha_only_after[OF assms, of dts rsai]
  note a2 = alpha_only_after[OF assms, of "dts @ [dt]" rsai]
  from w l a1 a2 show ?thesis by simp
qed

theorem alpha_only_glue_witness:
  "rotate fading_particle = None \<and> scale fading_particle = None
   \<and> alpha fading_particle = Some fade_out
   \<and> rsai_rotate (snd (particle_after [1 / 2] fading_particle turned_rsai)) = 30
   \<and> rsai_scale (snd (particle_after [1 / 2] fading_particle turned_rsai)) = 2
   \<and> rsai_alpha (snd (particle_after ([] @ [1 / 2]) fading_particle turned_rsai)) = 255 / 2
   \<and> \<not> lock (snd (particle_after ([] @ [1 / 2]) fading_particle turned_rsai))"
proof -
  have h: "rotate fading_particle = None" "scale fading_particle = None"
    "alpha fading_particle = Some fade_out"
    by (simp_all add: fading_particle_def)
  have r: "rsai_rotate turned_rsai = 30" "rsai_scale turned_rsai = 2"
    by (simp_all add: turned_rsai_def)
  note th = alpha_only_glue[OF h, of turned_rsai "1 / 2" "[1 / 2]"]
  note th2 = alpha_only_glue[OF h, of turned_rsai "1 / 2" "[]"]
  have f: "LerpThing_v (elapse_all ([] @ [1 / 2]) fade_out) = 255 / 2"
    using fade_half by simp
  from th th2 h r f show ?thesis by simp
qed

text \<open>
  C9: when the sprite's leading edge has crossed a boundary while the momentum on that axis
  points toward it, the momentum on that axis is inverted and the position reflected. For
  the top edge the code tests \<open>momentum.x < 0\<close> where it means \<open>momentum.y < 0\<close>: a
  sprite above the container, moving up and to the right, is left as it is.
\<close>

theorem top_bounce_missed:
  "top sprite_above < top screen \<and> vy (Vector2 1 (- 2)) < 0
   \<and> container_system (1 / 60) screen (Vector2 15 0) (Vector2 1 (- 2)) sprite_above
       = (Vector2 15 0, Vector2 1 (- 2))"
  by (simp add: container_system_def screen_def sprite_above_def
      right_def bottom_def Let_def)

text \<open>
  C10: a sample of \<open>ZoneRect.emit\<close> with both random values in [0,1) has integer
  coordinates, each the real sample \<open>W * (r - 0.5)\<close> or \<open>H * (r - 0.5)\<close> truncated toward
  zero (so no larger in magnitude than the real sample), and each within
  \<open>[-W/2, W/2]\<close> and \<open>[-H/2, H/2]\<close>.
\<close>

theorem rect_positions_integral:
  assumes "0 \<le> rp1" "rp1 < 1" "0 \<le> rp2" "rp2 < 1" "0 \<le> width rect" "0 \<le> height rect"
  shows "vx (fst (ZoneRect_emit rect rp1 rp2))
           = of_int (py_int (of_int (width rect) * (rp1 - 1 / 2)))
       \<and> vy (fst (ZoneRect_emit rect rp1 rp2))
           = of_int (py_int (of_int (height rect) * (rp2 - 1 / 2)))
       \<and> vx (fst (ZoneRect_emit rect rp1 rp2)) \<in> \<int>
       \<and> vy (fst (ZoneRect_emit rect rp1 rp2)) \<in> \<int>
       \<and> \<bar>vx (fst (ZoneRect_emit rect rp1 rp2))\<bar> \<le> \<bar>of_int (width rect) * (rp1 - 1 / 2)\<bar>
       \<and> \<bar>vy (fst (ZoneRect_emit rect rp1 rp2))\<bar> \<le> \<bar>of_int (height rect) * (rp2 - 1 / 2)\<bar>
       \<and> - (of_int (width rect) / 2) \<le> vx (fst (ZoneRect_emit rect rp1 rp2))
       \<and> vx (fst (ZoneRect_emit rect rp1 rp2)) \<le> of_int (width rect) / 2
       \<and> - (of_int (height rect) / 2) \<le> vy (fst (ZoneRect_emit rect rp1 rp2))
       \<and> vy (fst (ZoneRect_emit rect rp1 rp2)) \<le> of_int (height rect) / 2"
proof -
  let ?x = "of_int (width rect) * (rp1 - 1 / 2) :: real"
  let ?y = "of_int (height rect) * (rp2 - 1 / 2) :: real"
  have px: "vx (fst (ZoneRect_emit rect rp1 rp2)) = of_int (py_int ?x)"
    and py: "vy (fst (ZoneRect_emit rect rp1 rp2)) = of_int (py_int ?y)"
    by (simp_all add: ZoneRect_emit_def Let_def)
  have ax: "\<bar>of_int (py_int ?x) :: real\<bar> \<le> \<bar>?x\<bar>" by (rule py_int_abs)
  have ay: "\<bar>of_int (py_int ?y) :: real\<bar> \<le> \<bar>?y\<bar>" by (rule py_int_abs)
  have bx: "\<bar>?x\<bar> \<le> of_int (width rect) / 2" using assms(1,2,5) by (rule centred_sample)
  have by': "\<bar>?y\<bar> \<le> of_int (height rect) / 2" using assms(3,4,6) by (rule centred_sample)
  from ax bx have cx: "- (of_int (width rect) / 2) \<le> (of_int (py_int ?x) :: real)
                       \<and> (of_int (py_int ?x) :: real) \<le> of_int (width rect) / 2"
    by linarith
  from ay by' have cy: "- (of_int (height rect) / 2) \<le> (of_int (py_int ?y) :: real)
                       \<and> (of_int (py_int ?y) :: real) \<le> of_int (height rect) / 2"
    by linarith
  show ?thesis unfolding px py using ax ay cx cy by simp
qed

theorem rect_positions_integral_witness:
  "(0::real) \<le> 9 / 10 \<and> (9 / 10 :: real) < 1 \<and> (0::real) \<le> 0 \<and> (0::real) < 1
   \<and> 0 \<le> width small_rect \<and> 0 \<le> height small_rect
   \<and> fst (ZoneRect_emit small_rect (9 / 10) 0) = Vector2 2 (- 1)
   \<and> vx (fst (ZoneRect_emit small_rect (9 / 10) 0)) \<in> \<int>
   \<and> vy (fst (ZoneRect_emit small_rect (9 / 10) 0)) \<in> \<int>
   \<and> vx (fst (ZoneRect_emit small_rect (9 / 10) 0)) \<le> of_int (width small_rect) / 2
   \<and> - (of_int (height small_rect) / 2) \<le> vy (fst (ZoneRect_emit small_rect (9 / 10) 0))"
proof -
  have h: "(0::real) \<le> 9 / 10" "(9 / 10 :: real) < 1" "(0::real) \<le> 0" "(0::real) < 1"
    "0 \<le> width small_rect" "0 \<le> height small_rect"
    by (simp_all add: small_rect_def)
  have v: "fst (ZoneRect_emit small_rect (9 / 10) 0) = Vector2 2 (- 1)"
    by (simp add: ZoneRect_emit_def small_rect_def Let_def py_int_def)
  from rect_positions_integral[OF h] h v show ?thesis by blast
qed

end
